theory Spec2Isabelle
  imports Complex_Main
begin

section \<open>Python values, exceptions and channel items\<close>

text \<open>
  The values that cross the program: arguments, results, function references and the
  configuration a caller passes to the factory. Two kinds of object cannot be marshaled:
  \<open>PyObj\<close> stands for one that \<open>pickle\<close> refuses with \<open>PicklingError\<close> (a lambda), and
  \<open>PyLock\<close> for one that it refuses with \<open>TypeError\<close> (a lock, an open socket). Every
  other value can be marshaled when its parts can.
\<close>

datatype pyval =
    PyNone
  | PyInt int
  | PyFloat real
  | PyStr string
  | PyFunction string
  | PyMethod string
  | PyTuple "pyval list"
  | PyList "pyval list"
  | PyDict "(string \<times> pyval) list"
  | PyObj nat
  | PyLock nat

text \<open>
  Exception classes. \<open>SystemExit\<close> and \<open>KeyboardInterrupt\<close> derive from
  \<open>BaseException\<close> only, so a clause \<open>except Exception\<close> does not catch them; every
  other class derives from \<open>Exception\<close>. \<open>TimeoutError\<close> and \<open>TaskCancelled\<close> are the
  two classes the module imports from the package's core.
\<close>

datatype exc_class =
    IOError | OSError | EOFError | PicklingError | TypeError | ValueError
  | TimeoutError | TaskCancelled | UserException string
  | SystemExit | KeyboardInterrupt

fun is_Exception :: "exc_class \<Rightarrow> bool" where
  "is_Exception SystemExit = False"
| "is_Exception KeyboardInterrupt = False"
| "is_Exception _ = True"

fun class_name :: "exc_class \<Rightarrow> string" where
  "class_name IOError = ''IOError''"
| "class_name OSError = ''OSError''"
| "class_name EOFError = ''EOFError''"
| "class_name PicklingError = ''PicklingError''"
| "class_name TypeError = ''TypeError''"
| "class_name ValueError = ''ValueError''"
| "class_name TimeoutError = ''TimeoutError''"
| "class_name TaskCancelled = ''TaskCancelled''"
| "class_name (UserException n) = n"
| "class_name SystemExit = ''SystemExit''"
| "class_name KeyboardInterrupt = ''KeyboardInterrupt''"

text \<open>
  An exception object: its class, its constructor arguments, its truth value (\<open>True\<close>
  unless the class defines \<open>__bool__\<close> or \<open>__len__\<close> otherwise) and the attribute
  \<open>traceback\<close>, absent until somebody sets it.
\<close>

record pyexc =
  exc_class :: exc_class
  exc_args :: "pyval list"
  truthy :: bool
  traceback :: "string option"

definition new_exc :: "exc_class \<Rightarrow> pyval list \<Rightarrow> pyexc" where
  "new_exc c as = \<lparr>exc_class = c, exc_args = as, truthy = True, traceback = None\<rparr>"

text \<open>What a call of a Python function ends with.\<close>

datatype call_result = Returns pyval | Raises pyexc

text \<open>What travels on the channel: a plain value or an exception object.\<close>

datatype item = Val pyval | Exc pyexc

text \<open>
  What marshaling a value raises, if anything: the class of the error of the first part
  that cannot be marshaled. An exception object is marshaled with its arguments (its
  \<open>traceback\<close> attribute is a string).
\<close>

fun first_some :: "'a option list \<Rightarrow> 'a option" where
  "first_some [] = None"
| "first_some (None # xs) = first_some xs"
| "first_some (Some x # xs) = Some x"

fun marshal_error :: "pyval \<Rightarrow> exc_class option" where
  "marshal_error (PyObj _) = Some PicklingError"
| "marshal_error (PyLock _) = Some TypeError"
| "marshal_error (PyTuple vs) = first_some (map marshal_error vs)"
| "marshal_error (PyList vs) = first_some (map marshal_error vs)"
| "marshal_error (PyDict kvs) = first_some (map marshal_error (map snd kvs))"
| "marshal_error _ = None"

fun marshal_error_item :: "item \<Rightarrow> exc_class option" where
  "marshal_error_item (Val v) = marshal_error v"
| "marshal_error_item (Exc e) = first_some (map marshal_error (exc_args e))"

definition picklable :: "pyval \<Rightarrow> bool" where
  "picklable v \<longleftrightarrow> marshal_error v = None"

text \<open>
  \<open>traceback.format_exc()\<close> inside a handler: the header line and the line naming the
  exception being handled (the frame lines between them are left out).
\<close>

definition format_exc :: "pyexc \<Rightarrow> string" where
  "format_exc e = ''Traceback (most recent call last): '' @ class_name (exc_class e)"

text \<open>\<open>sys.exit(1)\<close> raises \<open>SystemExit(1)\<close>.\<close>

definition sys_exit :: "int \<Rightarrow> pyexc" where
  "sys_exit n = new_exc SystemExit [PyInt n]"

section \<open>The channel\<close>

text \<open>
  Modelled from the spec: the class \<open>SimpleQueue\<close> of \<open>pebble/process/generic.py\<close> is
  missing; the spec gives it as a transportable channel with \<open>put(item)\<close> and
  \<open>get(timeout) -> item | empty-signal\<close>. The worker, the manager and a cancelling caller
  run concurrently, so every write carries the time at which it happens, in seconds after
  the manager spawned the worker; the writes are kept oldest first. \<open>broken\<close> says that the
  pipe under the channel is closed, which makes \<open>put\<close> raise \<open>IOError\<close>; an item that
  cannot be marshaled makes it raise what \<open>pickle\<close> raises, \<open>PicklingError\<close> or
  \<open>TypeError\<close>.
\<close>

record channel =
  writes :: "(real \<times> item) list"
  broken :: bool

definition SimpleQueue :: channel where
  "SimpleQueue = \<lparr>writes = [], broken = False\<rparr>"

fun enqueue :: "real \<times> item \<Rightarrow> (real \<times> item) list \<Rightarrow> (real \<times> item) list" where
  "enqueue w [] = [w]"
| "enqueue w (v # vs) = (if fst w < fst v then w # v # vs else v # enqueue w vs)"

definition marshal_exc :: "exc_class \<Rightarrow> pyexc" where
  "marshal_exc c = new_exc c [PyStr ''Can't pickle object'']"

definition pickling_error :: pyexc where
  "pickling_error = marshal_exc PicklingError"

definition queue_put :: "channel \<Rightarrow> real \<Rightarrow> item \<Rightarrow> pyexc + channel" where
  "queue_put q now x =
     (if broken q then Inl (new_exc IOError [PyStr ''Broken pipe''])
      else case marshal_error_item x of
             Some c \<Rightarrow> Inl (marshal_exc c)
           | None \<Rightarrow> Inr (q\<lparr>writes := enqueue (now, x) (writes q)\<rparr>))"

text \<open>
  \<open>get(timeout)\<close>, called when the worker has just been spawned (time 0): the oldest write
  if it happens within the bound, the empty signal if the bound elapses first, and no
  return at all when nothing is ever written and the wait is unbounded.
\<close>

datatype get_result = Got item | Empty | Blocked

definition queue_get :: "channel \<Rightarrow> real option \<Rightarrow> get_result \<times> channel" where
  "queue_get q bound =
     (case writes q of
        [] \<Rightarrow> (case bound of None \<Rightarrow> (Blocked, q) | Some d \<Rightarrow> (Empty, q))
      | (t, x) # rest \<Rightarrow>
          (case bound of
             None \<Rightarrow> (Got x, q\<lparr>writes := rest\<rparr>)
           | Some d \<Rightarrow> if t \<le> d then (Got x, q\<lparr>writes := rest\<rparr>) else (Empty, q)))"

section \<open>The worker\<close>

text \<open>
  How a call of the worker function ends: it returns, or an exception leaves it
  (\<open>SystemExit\<close> included).
\<close>

datatype worker_end = Returned | Raised pyexc

text \<open>
  The exit status of the process that ran the worker function, as Python's
  \<open>multiprocessing\<close> sets it: the argument of \<open>SystemExit\<close> when it is an integer, 1 for
  any other exception, 0 for a return.
\<close>

fun exitcode :: "worker_end \<Rightarrow> int" where
  "exitcode Returned = 0"
| "exitcode (Raised e) =
     (if exc_class e = SystemExit then
        (case exc_args e of [] \<Rightarrow> 0 | [PyNone] \<Rightarrow> 0 | [PyInt n] \<Rightarrow> n | _ \<Rightarrow> 1)
      else 1)"

text \<open>
  The value of \<open>error is not None and error or results\<close>: \<open>and\<close> and \<open>or\<close> go by the
  truth value of their left operand, so an exception object that is false yields
  \<open>results\<close>.
\<close>

definition outcome_item :: "pyexc option \<Rightarrow> pyval \<Rightarrow> item" where
  "outcome_item error results =
     (case error of
        None \<Rightarrow> Val results
      | Some e \<Rightarrow> if truthy e then Exc e else Val results)"

text \<open>
  The \<open>finally\<close> clause of \<open>task_worker\<close>. \<open>pending\<close> is how the \<open>try\<close> statement ends
  when the clause completes: Python runs the clause also when a handler has raised
  (\<open>sys.exit(1)\<close> raises \<open>SystemExit\<close>) and re-raises the pending exception after it; an
  exception raised inside the clause replaces the pending one.
\<close>

definition worker_finally ::
  "channel \<Rightarrow> real \<Rightarrow> pyexc option \<Rightarrow> pyval \<Rightarrow> worker_end \<Rightarrow> worker_end \<times> channel" where
  "worker_finally queue now error results pending =
     (case queue_put queue now (outcome_item error results) of
        Inr queue' \<Rightarrow> (pending, queue')
      | Inl err \<Rightarrow>
          if exc_class err \<in> {IOError, OSError, EOFError} then (Raised (sys_exit 1), queue)
          else if exc_class err = PicklingError then
            (let error = err\<lparr>traceback := Some (format_exc err)\<rparr> in
             case queue_put queue now (Exc error) of
               Inr queue' \<Rightarrow> (pending, queue')
             | Inl err2 \<Rightarrow> (Raised err2, queue))
          else (Raised err, queue))"

text \<open>
  \<open>task_worker(queue, function, args, kwargs)\<close>. \<open>call\<close> is what
  \<open>function(*args, **kwargs)\<close> does: \<open>None\<close> when it never returns, otherwise the time it
  takes and how it ends. The result is how the worker function ends and the channel after
  it; \<open>None\<close> when the target never returns.
\<close>

definition task_worker ::
  "(pyval \<Rightarrow> pyval \<Rightarrow> pyval \<Rightarrow> (real \<times> call_result) option) \<Rightarrow>
   channel \<Rightarrow> pyval \<Rightarrow> pyval \<Rightarrow> pyval \<Rightarrow> (worker_end \<times> channel) option" where
  "task_worker call queue function args kwargs =
     (case call function args kwargs of
        None \<Rightarrow> None
      | Some (now, Returns results) \<Rightarrow> Some (worker_finally queue now None results Returned)
      | Some (now, Raises err) \<Rightarrow>
          if exc_class err \<in> {IOError, OSError} then
            Some (worker_finally queue now None PyNone (Raised (sys_exit 1)))
          else if is_Exception (exc_class err) then
            Some (worker_finally queue now
                    (Some (err\<lparr>traceback := Some (format_exc err)\<rparr>)) PyNone Returned)
          else Some (worker_finally queue now None PyNone (Raised err)))"

section \<open>Tasks\<close>

text \<open>
  Modelled from the spec: the base class \<open>Task\<close> of \<open>pebble/pebble.py\<close> is missing; the
  spec gives a task an id, a function reference, positional and keyword arguments, a
  timeout (0 for unbounded), an optional callback (\<open>PyNone\<close> when there is none), a
  cancellation flag and a terminal outcome (\<open>None\<close> until the task is terminal).
  \<open>task_queue\<close> is the field \<open>_queue\<close> that \<open>ProcessTask\<close> adds.
\<close>

record task =
  number :: nat
  task_function :: pyval
  task_args :: pyval
  task_kwargs :: pyval
  task_callback :: pyval
  task_timeout :: pyval
  task_cancelled :: bool
  task_results :: "item option"
  task_queue :: channel

text \<open>\<open>ProcessTask.__init__\<close> (the keyword \<open>identifier\<close>, which no caller passes, is left out).\<close>

definition ProcessTask ::
  "nat \<Rightarrow> pyval \<Rightarrow> pyval \<Rightarrow> pyval \<Rightarrow> pyval \<Rightarrow> pyval \<Rightarrow> channel \<Rightarrow> task" where
  "ProcessTask task_nr function args kwargs callback timeout queue =
     \<lparr>number = task_nr, task_function = function, task_args = args, task_kwargs = kwargs,
      task_callback = callback, task_timeout = timeout, task_cancelled = False,
      task_results = None, task_queue = queue\<rparr>"

text \<open>
  Modelled from the spec: \<open>Task._set\<close> is missing; the spec's \<open>setOutcome(value)\<close> sets the
  outcome exactly once and makes the task terminal.
\<close>

definition task_set :: "task \<Rightarrow> item \<Rightarrow> task" where
  "task_set task results =
     (case task_results task of
        None \<Rightarrow> task\<lparr>task_results := Some results\<rparr>
      | Some _ \<Rightarrow> task)"

text \<open>
  \<open>ProcessTask._cancel\<close>, called at time \<open>now\<close>: the flag is set, then the cancellation
  is put on the channel. The result is the exception that leaves the method, if any, and
  the task after it.
\<close>

definition ProcessTask_cancel :: "real \<Rightarrow> task \<Rightarrow> pyexc option \<times> task" where
  "ProcessTask_cancel now task =
     (let task = task\<lparr>task_cancelled := True\<rparr> in
      case queue_put (task_queue task) now (Exc (new_exc TaskCancelled [PyStr ''Task Cancelled''])) of
        Inl err \<Rightarrow> (Some err, task)
      | Inr queue \<Rightarrow> (None, task\<lparr>task_queue := queue\<rparr>))"

section \<open>The manager\<close>

text \<open>
  What the manager's surroundings decide: the platform (\<open>os.name\<close>), the marshaling shim
  \<open>dump_function\<close> of \<open>pebble/process/generic.py\<close> (missing, taken as a parameter), what a
  call of a target does (\<open>call\<close>, see \<open>task_worker\<close>) and what a call of a callback on a
  task does.
\<close>

record env =
  os_name :: string
  dump_function :: "pyval \<Rightarrow> pyval \<Rightarrow> pyval \<times> pyval"
  call :: "pyval \<Rightarrow> pyval \<Rightarrow> pyval \<Rightarrow> (real \<times> call_result) option"
  call_callback :: "pyval \<Rightarrow> task \<Rightarrow> call_result"

text \<open>
  What the manager does, in order: the spawn of the worker with the channel, the function,
  the positional and the keyword arguments it is given; \<open>queue.get(timeout)\<close> with the
  timeout it is given and what it yields; the outcome set on the task;
  \<open>process.terminate()\<close>; \<open>process.join()\<close>; the call of the callback on the task;
  \<open>print_exc()\<close>.
\<close>

datatype event =
    Spawn channel pyval pyval pyval
  | QueueGet pyval get_result
  | SetOutcome item
  | Terminate
  | Join
  | Callback pyval task
  | PrintExc pyexc

datatype manager_end = Done | Propagated pyexc

text \<open>
  \<open>x > 0\<close> on a Python value: defined on numbers; on anything else Python 3 raises
  \<open>TypeError\<close> (\<open>None\<close> here).
\<close>

fun py_gt_zero :: "pyval \<Rightarrow> bool option" where
  "py_gt_zero (PyInt n) = Some (n > 0)"
| "py_gt_zero (PyFloat r) = Some (r > 0)"
| "py_gt_zero _ = None"

text \<open>The bound \<open>queue.get\<close> is given: \<open>None\<close> waits without bound, a number that many seconds.\<close>

fun seconds :: "pyval \<Rightarrow> real option" where
  "seconds (PyInt n) = Some (of_int n)"
| "seconds (PyFloat r) = Some r"
| "seconds _ = None"

text \<open>
  The end of \<open>task_manager\<close>, after the outcome is set: the worker is terminated and
  joined, then the callback, if there is one, is called on the task. A handler
  \<open>except Exception\<close> around the call logs what it catches.
\<close>

definition manager_finish :: "env \<Rightarrow> task \<Rightarrow> event list \<Rightarrow> manager_end \<times> task \<times> event list" where
  "manager_finish env task trace =
     (let trace = trace @ [Terminate, Join] in
      if task_callback task \<noteq> PyNone then
        (case call_callback env (task_callback task) task of
           Returns _ \<Rightarrow> (Done, task, trace @ [Callback (task_callback task) task])
         | Raises err \<Rightarrow>
             if is_Exception (exc_class err)
             then (Done, task, trace @ [Callback (task_callback task) task, PrintExc err])
             else (Propagated err, task, trace @ [Callback (task_callback task) task]))
      else (Done, task, trace))"

text \<open>
  \<open>task_manager(task)\<close>: how the manager ends, the task after it and what the manager
  did; \<open>None\<close> when the manager waits on the channel for ever. The worker runs
  concurrently with the manager and only writes to the channel, each write with its time,
  so its writes are added to the channel at the spawn.
\<close>

definition task_manager :: "env \<Rightarrow> task \<Rightarrow> (manager_end \<times> task \<times> event list) option" where
  "task_manager env task =
     (let args = task_args task;
          queue = task_queue task;
          function = task_function task
      in case py_gt_zero (task_timeout task) of
           None \<Rightarrow> Some (Propagated (new_exc TypeError [PyStr ''unorderable types'']), task, [])
         | Some positive \<Rightarrow>
             (let timeout = (if positive then task_timeout task else PyNone);
                  (function, args) =
                     (if os_name env = ''nt'' then dump_function env function args
                      else (function, args));
                  process = task_worker (call env) queue function (task_args task) (task_kwargs task);
                  spawn = Spawn queue function (task_args task) (task_kwargs task);
                  queue = (case process of None \<Rightarrow> queue | Some (_, queue') \<Rightarrow> queue')
              in case queue_get queue (seconds timeout) of
                   (Blocked, _) \<Rightarrow> None
                 | (Got results, queue) \<Rightarrow>
                     Some (manager_finish env (task_set (task\<lparr>task_queue := queue\<rparr>) results)
                             [spawn, QueueGet timeout (Got results), SetOutcome results])
                 | (Empty, queue) \<Rightarrow>
                     (let results = Exc (new_exc TimeoutError [PyStr ''Task Timeout'', timeout])
                      in Some (manager_finish env (task_set (task\<lparr>task_queue := queue\<rparr>) results)
                                 [spawn, QueueGet timeout Empty, SetOutcome results]))))"

section \<open>The factory\<close>

text \<open>
  An object of the class \<open>TaskDecoratorWrapper\<close>. \<open>itertools.count()\<close> is a counter that
  starts at 0; \<open>next\<close> yields its value and adds one.
\<close>

record wrapper =
  wrapper_counter :: nat
  wrapper_function :: pyval
  wrapper_ismethod :: bool
  wrapper_timeout :: pyval
  wrapper_callback :: pyval

definition TaskDecoratorWrapper :: "pyval \<Rightarrow> pyval \<Rightarrow> pyval \<Rightarrow> wrapper" where
  "TaskDecoratorWrapper function timeout callback =
     \<lparr>wrapper_counter = 0, wrapper_function = function, wrapper_ismethod = False,
      wrapper_timeout = timeout, wrapper_callback = callback\<rparr>"

text \<open>
  The state of the module: the global \<open>_task_counter\<close>, and the tasks on which
  \<open>task_manager\<close> has been started (the decorator \<open>thread_worker\<close> runs each call in a
  thread of its own and returns at once).
\<close>

record module_state =
  task_counter :: nat
  managers :: "task list"

definition initial_state :: module_state where
  "initial_state = \<lparr>task_counter = 0, managers = []\<rparr>"

text \<open>\<open>TaskDecoratorWrapper.__call__(*args, **kwargs)\<close>.\<close>

definition TaskDecoratorWrapper_call ::
  "wrapper \<Rightarrow> module_state \<Rightarrow> pyval list \<Rightarrow> (string \<times> pyval) list \<Rightarrow> task \<times> wrapper \<times> module_state" where
  "TaskDecoratorWrapper_call self st args kwargs =
     (let queue = SimpleQueue;
          task = ProcessTask (wrapper_counter self) (wrapper_function self) (PyTuple args)
                   (PyDict kwargs) (wrapper_callback self) (wrapper_timeout self) queue
      in (task, self\<lparr>wrapper_counter := wrapper_counter self + 1\<rparr>,
          st\<lparr>managers := managers st @ [task]\<rparr>))"

text \<open>A wrapper called again and again, each time with its own arguments: the tasks it makes.\<close>

fun wrapper_calls ::
  "wrapper \<Rightarrow> module_state \<Rightarrow> (pyval list \<times> (string \<times> pyval) list) list \<Rightarrow> task list \<times> wrapper \<times> module_state" where
  "wrapper_calls self st [] = ([], self, st)"
| "wrapper_calls self st ((args, kwargs) # rest) =
     (case TaskDecoratorWrapper_call self st args kwargs of
        (task, self', st') \<Rightarrow>
          (case wrapper_calls self' st' rest of
             (tasks, self'', st'') \<Rightarrow> (task # tasks, self'', st'')))"

text \<open>\<open>kwargs.pop(key, default)\<close> on a dictionary kept as an association list.\<close>

definition dict_pop ::
  "string \<Rightarrow> pyval \<Rightarrow> (string \<times> pyval) list \<Rightarrow> pyval \<times> (string \<times> pyval) list" where
  "dict_pop key dflt kwargs =
     (case map_of kwargs key of
        None \<Rightarrow> (dflt, kwargs)
      | Some v \<Rightarrow> (v, filter (\<lambda>kv. fst kv \<noteq> key) kwargs))"

text \<open>\<open>isinstance(x, (FunctionType, MethodType))\<close>.\<close>

fun is_function_or_method :: "pyval \<Rightarrow> bool" where
  "is_function_or_method (PyFunction _) = True"
| "is_function_or_method (PyMethod _) = True"
| "is_function_or_method _ = False"

text \<open>
  What \<open>task(...)\<close> returns: a wrapper object, the inner function \<open>wrapper\<close> closed over
  \<open>timeout\<close> and \<open>callback\<close>, or a task whose manager is started.
\<close>

datatype factory_result = Wrapped wrapper | Decorator pyval pyval | Started task

text \<open>The inner function \<open>wrapper(function)\<close> of \<open>task\<close>.\<close>

fun decorate :: "factory_result \<Rightarrow> pyval \<Rightarrow> wrapper option" where
  "decorate (Decorator timeout callback) function =
     Some (TaskDecoratorWrapper function timeout callback)"
| "decorate _ function = None"

text \<open>
  The function \<open>task(*args, **kwargs)\<close> (named \<open>task_factory\<close> here, \<open>task\<close> being the
  record): the exception it raises or what it returns, and the state of the module after
  it.
\<close>

definition task_factory ::
  "module_state \<Rightarrow> pyval list \<Rightarrow> (string \<times> pyval) list \<Rightarrow> (pyexc + factory_result) \<times> module_state" where
  "task_factory st args kwargs =
     (if length args > 0 \<and> length kwargs = 0 then
        (if \<not> is_function_or_method (hd args)
         then (Inl (new_exc ValueError [PyStr ''Decorated object must be function or method.'']), st)
         else (Inr (Wrapped (TaskDecoratorWrapper (hd args) (PyInt 0) PyNone)), st))
      else if length kwargs > 0 then
        (let (timeout, kwargs) = dict_pop ''timeout'' (PyInt 0) kwargs;
             (callback, kwargs) = dict_pop ''callback'' PyNone kwargs;
             (target, kwargs) = dict_pop ''target'' PyNone kwargs;
             (args, kwargs) = dict_pop ''args'' (PyList []) kwargs;
             (kwargs, _) = dict_pop ''kwargs'' (PyDict []) kwargs
         in if target \<noteq> PyNone then
              (let queue = SimpleQueue;
                   task = ProcessTask (task_counter st) target args kwargs callback timeout queue
               in (Inr (Started task),
                   st\<lparr>task_counter := task_counter st + 1, managers := managers st @ [task]\<rparr>))
            else (Inr (Decorator timeout callback), st))
      else (Inl (new_exc ValueError [PyStr ''Decorator accepts only keyword arguments.'']), st))"

section \<open>Notions used in the statements\<close>

text \<open>The function the manager hands to the worker: the marshaled one on \<open>nt\<close>.\<close>

definition spawn_function :: "env \<Rightarrow> task \<Rightarrow> pyval" where
  "spawn_function env task =
     (if os_name env = ''nt'' then fst (dump_function env (task_function task) (task_args task))
      else task_function task)"

text \<open>The channel of a task once its worker is spawned: the worker's write is on it.\<close>

definition spawned_channel :: "env \<Rightarrow> task \<Rightarrow> channel" where
  "spawned_channel env task =
     (case task_worker (call env) (task_queue task) (spawn_function env task)
             (task_args task) (task_kwargs task) of
        None \<Rightarrow> task_queue task
      | Some (_, queue') \<Rightarrow> queue')"

text \<open>The value of the manager's local variable \<open>timeout\<close>.\<close>

definition effective_timeout :: "task \<Rightarrow> pyval" where
  "effective_timeout task =
     (if py_gt_zero (task_timeout task) = Some True then task_timeout task else PyNone)"

definition timeout_error :: "pyval \<Rightarrow> item" where
  "timeout_error timeout = Exc (new_exc TimeoutError [PyStr ''Task Timeout'', timeout])"

definition cancelled_item :: item where
  "cancelled_item = Exc (new_exc TaskCancelled [PyStr ''Task Cancelled''])"

fun is_callback :: "event \<Rightarrow> bool" where
  "is_callback (Callback _ _) = True"
| "is_callback _ = False"

text \<open>Readings of a run of the manager: how it ends, the outcome of the task, its first step.\<close>

fun final_end :: "(manager_end \<times> task \<times> event list) option \<Rightarrow> manager_end option" where
  "final_end None = None"
| "final_end (Some (e, _, _)) = Some e"

fun final_results :: "(manager_end \<times> task \<times> event list) option \<Rightarrow> item option" where
  "final_results None = None"
| "final_results (Some (_, task, _)) = task_results task"

fun first_event :: "(manager_end \<times> task \<times> event list) option \<Rightarrow> event option" where
  "first_event (Some (_, _, ev # _)) = Some ev"
| "first_event _ = None"

text \<open>\<open>task\<close> called again and again, and the ids of the tasks these calls started.\<close>

fun factory_calls ::
  "module_state \<Rightarrow> (pyval list \<times> (string \<times> pyval) list) list \<Rightarrow>
   (pyexc + factory_result) list \<times> module_state" where
  "factory_calls st [] = ([], st)"
| "factory_calls st ((args, kwargs) # rest) =
     (case task_factory st args kwargs of
        (r, st') \<Rightarrow> (case factory_calls st' rest of (rs, st'') \<Rightarrow> (r # rs, st'')))"

fun started_numbers :: "(pyexc + factory_result) list \<Rightarrow> nat list" where
  "started_numbers [] = []"
| "started_numbers (Inr (Started t) # rs) = number t # started_numbers rs"
| "started_numbers (_ # rs) = started_numbers rs"

text \<open>\<open>kwargs.get(key, default)\<close>: the value \<open>pop\<close> yields, without the removal.\<close>

definition dict_get :: "string \<Rightarrow> pyval \<Rightarrow> (string \<times> pyval) list \<Rightarrow> pyval" where
  "dict_get key dflt kwargs = (case map_of kwargs key of None \<Rightarrow> dflt | Some v \<Rightarrow> v)"

section \<open>Sample runs\<close>

text \<open>
  A POSIX platform on which every target runs as \<open>run\<close> says and every callback ends as
  \<open>cb\<close> says; a task on the function \<open>target\<close> with the argument 1.
\<close>

definition posix_env :: "(real \<times> call_result) option \<Rightarrow> call_result \<Rightarrow> env" where
  "posix_env run cb =
     \<lparr>os_name = ''posix'', dump_function = (\<lambda>f a. (f, a)), call = (\<lambda>f a k. run),
      call_callback = (\<lambda>c t. cb)\<rparr>"

definition sample_task :: "pyval \<Rightarrow> pyval \<Rightarrow> task" where
  "sample_task timeout callback =
     ProcessTask 0 (PyFunction ''target'') (PyTuple [PyInt 1]) (PyDict []) callback timeout
       SimpleQueue"

text \<open>
  A Windows platform with a marshaling shim that replaces the function by a trampoline
  and puts the function in front of the arguments.
\<close>

definition sample_dump :: "pyval \<Rightarrow> pyval \<Rightarrow> pyval \<times> pyval" where
  "sample_dump function args =
     (PyFunction ''trampoline'',
      PyList (function # (case args of PyTuple vs \<Rightarrow> vs | PyList vs \<Rightarrow> vs | _ \<Rightarrow> [])))"

definition nt_env :: env where
  "nt_env =
     \<lparr>os_name = ''nt'', dump_function = sample_dump,
      call = (\<lambda>f a k. Some (1, Returns (PyInt 42))), call_callback = (\<lambda>c t. Returns PyNone)\<rparr>"

text \<open>
  A Windows platform on which \<open>target\<close> returns 42 after a second, and the trampoline
  calls the function it finds in front of its arguments, raising \<open>TypeError\<close> when there
  is none.
\<close>

definition trampoline_call :: "pyval \<Rightarrow> pyval \<Rightarrow> pyval \<Rightarrow> (real \<times> call_result) option" where
  "trampoline_call f a k =
     (if f = PyFunction ''trampoline'' then
        (case a of
           PyList (PyFunction g # rest) \<Rightarrow> Some (1, Returns (PyInt 42))
         | _ \<Rightarrow> Some (1, Raises (new_exc TypeError [PyStr ''trampoline() argument''])))
      else Some (1, Returns (PyInt 42)))"

definition nt_trampoline_env :: env where
  "nt_trampoline_env =
     \<lparr>os_name = ''nt'', dump_function = sample_dump, call = trampoline_call,
      call_callback = (\<lambda>c t. Returns PyNone)\<rparr>"

text \<open>A task whose channel is broken from the start.\<close>

definition broken_task :: "pyval \<Rightarrow> pyval \<Rightarrow> task" where
  "broken_task timeout callback =
     (sample_task timeout callback)\<lparr>task_queue := SimpleQueue\<lparr>broken := True\<rparr>\<rparr>"

section \<open>The worker: what reaches the channel\<close>

lemma format_exc_nonempty: "format_exc e \<noteq> []"
  by (simp add: format_exc_def)

lemma worker_returns:
  assumes "cl f a k = Some (d, Returns v)" "picklable v" "\<not> broken q"
  shows "task_worker cl q f a k = Some (Returned, q\<lparr>writes := enqueue (d, Val v) (writes q)\<rparr>)"
  using assms
  by (simp add: task_worker_def worker_finally_def queue_put_def outcome_item_def picklable_def)

lemma worker_os_io_failure:
  assumes "cl f a k = Some (now, Raises err)" "exc_class err \<in> {IOError, OSError}" "\<not> broken q"
  shows "task_worker cl q f a k =
           Some (Raised (sys_exit 1), q\<lparr>writes := enqueue (now, Val PyNone) (writes q)\<rparr>)"
  using assms by (simp add: task_worker_def worker_finally_def queue_put_def outcome_item_def)

lemma worker_false_exception:
  assumes "cl f a k = Some (now, Raises err)" "is_Exception (exc_class err)"
    "exc_class err \<notin> {IOError, OSError}" "\<not> truthy err" "\<not> broken q"
  shows "task_worker cl q f a k =
           Some (Returned, q\<lparr>writes := enqueue (now, Val PyNone) (writes q)\<rparr>)"
  using assms by (simp add: task_worker_def worker_finally_def queue_put_def outcome_item_def)

text \<open>
  An outcome whose write raises an error that is neither of the I/O kind nor a
  \<open>PicklingError\<close> (a \<open>TypeError\<close>, for a lock): no handler of the \<open>finally\<close> clause
  catches it, nothing is written and the error leaves the worker.
\<close>

lemma worker_write_type_error:
  assumes "cl f a k = Some (now, Raises err)" "is_Exception (exc_class err)"
    "exc_class err \<notin> {IOError, OSError}" "truthy err" "\<not> broken q"
    "marshal_error_item (Exc err) = Some TypeError"
  shows "task_worker cl q f a k = Some (Raised (marshal_exc TypeError), q)"
  using assms
  by (simp add: task_worker_def worker_finally_def queue_put_def outcome_item_def
      marshal_exc_def new_exc_def)

lemma worker_never: "cl f a k = None \<Longrightarrow> task_worker cl q f a k = None"
  by (simp add: task_worker_def)

lemma worker_channel:
  assumes "task_worker cl q f a k = Some (e, q')"
  shows "\<exists>d r. cl f a k = Some (d, r) \<and>
           (q' = q \<or> (\<exists>x. q' = q\<lparr>writes := enqueue (d, x) (writes q)\<rparr>))"
  using assms
  by (auto simp: task_worker_def worker_finally_def queue_put_def Let_def
      split: option.splits call_result.splits if_splits sum.splits)

text \<open>
  C1. A target that raises \<open>IOError\<close> (here after 2 seconds, on a sound channel): the
  handler calls \<open>sys.exit(1)\<close>, but the \<open>finally\<close> clause of the same \<open>try\<close> runs before
  \<open>SystemExit\<close> leaves the function and puts \<open>results\<close>, which is \<open>None\<close>, on the channel.
  The process exits with status 1 after one write, and the manager of such a task sets
  \<open>None\<close> as its outcome.
\<close>

theorem worker_io_failure_writes_none:
  "task_worker (call (posix_env (Some (2, Raises (new_exc IOError [PyStr ''No such file''])))
                   (Returns PyNone)))
     SimpleQueue (PyFunction ''target'') (PyTuple [PyInt 1]) (PyDict [])
     = Some (Raised (sys_exit 1), \<lparr>writes = [(2, Val PyNone)], broken = False\<rparr>) \<and>
   exitcode (Raised (sys_exit 1)) = 1 \<and>
   final_results
     (task_manager (posix_env (Some (2, Raises (new_exc IOError [PyStr ''No such file''])))
                      (Returns PyNone))
        (sample_task (PyInt 0) PyNone)) = Some (Val PyNone)"
  by (simp add: task_manager_def task_worker_def worker_finally_def queue_put_def
      queue_get_def outcome_item_def posix_env_def sample_task_def ProcessTask_def
      SimpleQueue_def new_exc_def sys_exit_def manager_finish_def task_set_def Let_def)

text \<open>
  C5, as the code has it. A target that raises \<open>SystemExit(3)\<close> (it called
  \<open>sys.exit(3)\<close>): the exception is not captured, \<open>None\<close> is written and the exception
  leaves the worker.
\<close>

theorem worker_system_exit_not_captured:
  "task_worker (call (posix_env (Some (2, Raises (sys_exit 3))) (Returns PyNone)))
     SimpleQueue (PyFunction ''target'') (PyTuple [PyInt 1]) (PyDict [])
     = Some (Raised (sys_exit 3), \<lparr>writes = [(2, Val PyNone)], broken = False\<rparr>)"
  by (simp add: task_worker_def worker_finally_def queue_put_def outcome_item_def
      posix_env_def SimpleQueue_def new_exc_def sys_exit_def)

text \<open>
  C5, amended. The target raises, after \<open>now\<close> seconds, an exception \<open>err\<close> that is
  neither \<open>IOError\<close> nor \<open>OSError\<close>, and the channel is sound. When \<open>err\<close> derives from
  \<open>Exception\<close> and is true as a truth value, the worker attaches a non-empty formatted
  trace to it and, if the object can be marshaled, writes that object itself and returns
  normally; if the write raises \<open>PicklingError\<close>, the worker writes that
  \<open>PicklingError\<close> instead, with a non-empty trace of its own, and returns normally. When
  \<open>err\<close> derives from \<open>BaseException\<close> only, it is not captured: \<open>None\<close> is written and
  \<open>err\<close> leaves the worker.
\<close>

theorem worker_captures_exception:
  assumes "cl f a k = Some (now, Raises err)"
    and "exc_class err \<notin> {IOError, OSError}"
    and "\<not> broken q"
  shows "(is_Exception (exc_class err) \<and> truthy err \<and> marshal_error_item (Exc err) = None \<longrightarrow>
            task_worker cl q f a k =
              Some (Returned,
                    q\<lparr>writes := enqueue (now, Exc (err\<lparr>traceback := Some (format_exc err)\<rparr>))
                                  (writes q)\<rparr>)) \<and>
         (is_Exception (exc_class err) \<and> truthy err \<and>
          marshal_error_item (Exc err) = Some PicklingError \<longrightarrow>
            task_worker cl q f a k =
              Some (Returned,
                    q\<lparr>writes := enqueue
                         (now, Exc (pickling_error\<lparr>traceback := Some (format_exc pickling_error)\<rparr>))
                         (writes q)\<rparr>)) \<and>
         format_exc err \<noteq> [] \<and> format_exc pickling_error \<noteq> [] \<and>
         (\<not> is_Exception (exc_class err) \<longrightarrow>
            task_worker cl q f a k =
              Some (Raised err, q\<lparr>writes := enqueue (now, Val PyNone) (writes q)\<rparr>))"
proof -
  have plain: "task_worker cl q f a k =
      Some (Returned,
            q\<lparr>writes := enqueue (now, Exc (err\<lparr>traceback := Some (format_exc err)\<rparr>)) (writes q)\<rparr>)"
    if "is_Exception (exc_class err)" "truthy err" "marshal_error_item (Exc err) = None"
    using that assms
    by (simp add: task_worker_def worker_finally_def queue_put_def outcome_item_def)
  have pickling: "task_worker cl q f a k =
      Some (Returned,
            q\<lparr>writes := enqueue
                 (now, Exc (pickling_error\<lparr>traceback := Some (format_exc pickling_error)\<rparr>))
                 (writes q)\<rparr>)"
    if "is_Exception (exc_class err)" "truthy err"
      "marshal_error_item (Exc err) = Some PicklingError"
    using that assms
    by (simp add: task_worker_def worker_finally_def queue_put_def outcome_item_def
        pickling_error_def marshal_exc_def new_exc_def)
  have base: "task_worker cl q f a k =
      Some (Raised err, q\<lparr>writes := enqueue (now, Val PyNone) (writes q)\<rparr>)"
    if "\<not> is_Exception (exc_class err)"
    using that assms
    by (simp add: task_worker_def worker_finally_def queue_put_def outcome_item_def)
  from plain pickling base show ?thesis
    by (simp add: format_exc_nonempty)
qed

theorem worker_captures_exception_witness:
  "task_worker (call (posix_env (Some (2, Raises (new_exc ValueError [PyStr ''x''])))
                   (Returns PyNone)))
     SimpleQueue (PyFunction ''target'') (PyTuple [PyInt 1]) (PyDict [])
     = Some (Returned,
             SimpleQueue\<lparr>writes := enqueue
               (2, Exc ((new_exc ValueError [PyStr ''x''])
                          \<lparr>traceback := Some (format_exc (new_exc ValueError [PyStr ''x'']))\<rparr>))
               (writes SimpleQueue)\<rparr>) \<and>
   format_exc (new_exc ValueError [PyStr ''x'']) \<noteq> [] \<and>
   task_worker (call (posix_env (Some (2, Raises (new_exc ValueError [PyObj 0])))
                   (Returns PyNone)))
     SimpleQueue (PyFunction ''target'') (PyTuple [PyInt 1]) (PyDict [])
     = Some (Returned,
             SimpleQueue\<lparr>writes := enqueue
               (2, Exc (pickling_error\<lparr>traceback := Some (format_exc pickling_error)\<rparr>))
               (writes SimpleQueue)\<rparr>) \<and>
   task_worker (call (posix_env (Some (2, Raises (new_exc KeyboardInterrupt [])))
                   (Returns PyNone)))
     SimpleQueue (PyFunction ''target'') (PyTuple [PyInt 1]) (PyDict [])
     = Some (Raised (new_exc KeyboardInterrupt []),
             SimpleQueue\<lparr>writes := enqueue (2, Val PyNone) (writes SimpleQueue)\<rparr>)"
  using worker_captures_exception
    [of "call (posix_env (Some (2, Raises (new_exc ValueError [PyStr ''x'']))) (Returns PyNone))"
        "PyFunction ''target''" "PyTuple [PyInt 1]" "PyDict []" 2
        "new_exc ValueError [PyStr ''x'']" SimpleQueue]
    worker_captures_exception
    [of "call (posix_env (Some (2, Raises (new_exc ValueError [PyObj 0]))) (Returns PyNone))"
        "PyFunction ''target''" "PyTuple [PyInt 1]" "PyDict []" 2
        "new_exc ValueError [PyObj 0]" SimpleQueue]
    worker_captures_exception
    [of "call (posix_env (Some (2, Raises (new_exc KeyboardInterrupt []))) (Returns PyNone))"
        "PyFunction ''target''" "PyTuple [PyInt 1]" "PyDict []" 2
        "new_exc KeyboardInterrupt []" SimpleQueue]
  by (simp add: posix_env_def new_exc_def SimpleQueue_def)

section \<open>The manager: one run\<close>

lemma manager_unfold:
  assumes "py_gt_zero (task_timeout task) = Some pos"
  shows "task_manager env task =
     (case queue_get (spawned_channel env task) (seconds (effective_timeout task)) of
        (Blocked, _) \<Rightarrow> None
      | (Got x, q') \<Rightarrow>
          Some (manager_finish env (task_set (task\<lparr>task_queue := q'\<rparr>) x)
            [Spawn (task_queue task) (spawn_function env task) (task_args task) (task_kwargs task),
             QueueGet (effective_timeout task) (Got x), SetOutcome x])
      | (Empty, q') \<Rightarrow>
          Some (manager_finish env
            (task_set (task\<lparr>task_queue := q'\<rparr>) (timeout_error (effective_timeout task)))
            [Spawn (task_queue task) (spawn_function env task) (task_args task) (task_kwargs task),
             QueueGet (effective_timeout task) Empty,
             SetOutcome (timeout_error (effective_timeout task))]))"
  using assms
  by (simp add: task_manager_def spawn_function_def spawned_channel_def effective_timeout_def
      timeout_error_def Let_def case_prod_beta split: get_result.splits)

lemma manager_got:
  assumes "py_gt_zero (task_timeout task) = Some pos"
    and "queue_get (spawned_channel env task) (seconds (effective_timeout task)) = (Got x, q')"
  shows "task_manager env task =
          Some (manager_finish env (task_set (task\<lparr>task_queue := q'\<rparr>) x)
            [Spawn (task_queue task) (spawn_function env task) (task_args task) (task_kwargs task),
             QueueGet (effective_timeout task) (Got x), SetOutcome x])"
  by (simp add: manager_unfold[OF assms(1)] assms(2))

lemma manager_empty:
  assumes "py_gt_zero (task_timeout task) = Some pos"
    and "queue_get (spawned_channel env task) (seconds (effective_timeout task)) = (Empty, q')"
  shows "task_manager env task =
          Some (manager_finish env
            (task_set (task\<lparr>task_queue := q'\<rparr>) (timeout_error (effective_timeout task)))
            [Spawn (task_queue task) (spawn_function env task) (task_args task) (task_kwargs task),
             QueueGet (effective_timeout task) Empty,
             SetOutcome (timeout_error (effective_timeout task))])"
  by (simp add: manager_unfold[OF assms(1)] assms(2))

lemma manager_run:
  assumes "task_manager env task = Some (e, task', trace)"
    and "py_gt_zero (task_timeout task) = Some pos"
  shows "\<exists>b r x q'.
           manager_finish env (task_set (task\<lparr>task_queue := q'\<rparr>) x)
             [Spawn (task_queue task) (spawn_function env task) (task_args task) (task_kwargs task),
              QueueGet b r, SetOutcome x] = (e, task', trace)"
  using assms
  by (auto simp: manager_unfold split: prod.splits get_result.splits)

lemma seconds_gt_zero: "seconds x = Some t \<Longrightarrow> py_gt_zero x = Some (0 < t)"
  by (cases x) auto

lemma effective_timeout_seconds:
  "seconds (task_timeout task) = Some t \<Longrightarrow>
   effective_timeout task = (if 0 < t then task_timeout task else PyNone)"
  by (simp add: effective_timeout_def seconds_gt_zero)

lemma manager_finish_task: "fst (snd (manager_finish env task trace)) = task"
  by (simp add: manager_finish_def Let_def split: call_result.splits)

lemma manager_finish_shape:
  "\<exists>e post. manager_finish env task trace = (e, task, trace @ [Terminate, Join] @ post) \<and>
     Terminate \<notin> set post \<and> Join \<notin> set post"
  by (simp add: manager_finish_def Let_def split: call_result.splits)

lemma manager_finish_callback:
  assumes "task_callback task \<noteq> PyNone"
  shows "manager_finish env task trace =
     (case call_callback env (task_callback task) task of
        Returns _ \<Rightarrow> (Done, task, trace @ [Terminate, Join, Callback (task_callback task) task])
      | Raises err \<Rightarrow>
          if is_Exception (exc_class err)
          then (Done, task,
                trace @ [Terminate, Join, Callback (task_callback task) task, PrintExc err])
          else (Propagated err, task,
                trace @ [Terminate, Join, Callback (task_callback task) task]))"
  using assms by (simp add: manager_finish_def Let_def split: call_result.splits)

lemma task_set_fresh:
  "task_results task = None \<Longrightarrow> task_results (task_set (task\<lparr>task_queue := q\<rparr>) x) = Some x"
  by (simp add: task_set_def)

lemma task_set_callback:
  "task_callback (task_set (task\<lparr>task_queue := q\<rparr>) x) = task_callback task"
  by (simp add: task_set_def split: option.splits)

lemma set_enqueue: "set (enqueue w ws) = insert w (set ws)"
  by (induction ws) auto

lemma spawned_channel_writes:
  "set (writes (spawned_channel env task)) \<subseteq>
     set (writes (task_queue task)) \<union>
     (case call env (spawn_function env task) (task_args task) (task_kwargs task) of
        None \<Rightarrow> {} | Some (d, r) \<Rightarrow> {w. fst w = d})"
proof (cases "task_worker (call env) (task_queue task) (spawn_function env task)
                (task_args task) (task_kwargs task)")
  case None
  then show ?thesis by (simp add: spawned_channel_def)
next
  case (Some p)
  obtain e q' where p: "p = (e, q')" by (cases p)
  from worker_channel[of "call env" "task_queue task" "spawn_function env task"
      "task_args task" "task_kwargs task" e q'] Some p
  show ?thesis
    by (auto simp: spawned_channel_def set_enqueue)
qed

lemma spawned_channel_head:
  assumes "writes (task_queue task) = [(c, x)]"
    and "case call env (spawn_function env task) (task_args task) (task_kwargs task) of
           None \<Rightarrow> True | Some (d, r) \<Rightarrow> c < d"
  shows "\<exists>rest. writes (spawned_channel env task) = (c, x) # rest"
proof (cases "task_worker (call env) (task_queue task) (spawn_function env task)
                (task_args task) (task_kwargs task)")
  case None
  then show ?thesis using assms(1) by (simp add: spawned_channel_def)
next
  case (Some p)
  obtain e q' where p: "p = (e, q')" by (cases p)
  from worker_channel[of "call env" "task_queue task" "spawn_function env task"
      "task_args task" "task_kwargs task" e q'] Some p assms
  show ?thesis
    by (auto simp: spawned_channel_def)
qed

lemma queue_get_late:
  assumes "\<forall>w \<in> set (writes q). t < fst w"
  shows "queue_get q (Some t) = (Empty, q)"
  using assms by (cases "writes q") (auto simp: queue_get_def)

lemma queue_get_head:
  assumes "writes q = (c, x) # rest" and "case bound of None \<Rightarrow> True | Some t \<Rightarrow> c \<le> t"
  shows "queue_get q bound = (Got x, q\<lparr>writes := rest\<rparr>)"
  using assms by (auto simp: queue_get_def split: option.splits)

lemma manager_spawn_arguments:
  assumes "task_manager env task = Some (e, task', trace)"
    and "py_gt_zero (task_timeout task) = Some pos"
  shows "first_event (task_manager env task) =
           Some (Spawn (task_queue task) (spawn_function env task) (task_args task)
                   (task_kwargs task))"
proof -
  from manager_run[OF assms] obtain b r x q' where
    "manager_finish env (task_set (task\<lparr>task_queue := q'\<rparr>) x)
       [Spawn (task_queue task) (spawn_function env task) (task_args task) (task_kwargs task),
        QueueGet b r, SetOutcome x] = (e, task', trace)"
    by blast
  with manager_finish_shape[of env "task_set (task\<lparr>task_queue := q'\<rparr>) x"
      "[Spawn (task_queue task) (spawn_function env task) (task_args task) (task_kwargs task),
        QueueGet b r, SetOutcome x]"]
  show ?thesis using assms(1) by auto
qed

text \<open>
  C2. On \<open>nt\<close> the manager marshals the function and the arguments, but spawns the worker
  with the marshaled function and \<open>task._args\<close>, the arguments as they were: the local
  \<open>args\<close> that holds the marshaled ones is never used. On the sample platform the shim
  turns \<open>target\<close> and \<open>(1,)\<close> into \<open>trampoline\<close> and \<open>[target, 1]\<close>, and the worker is
  spawned with \<open>trampoline\<close> and \<open>(1,)\<close>.
\<close>

theorem manager_spawns_with_unmarshaled_args:
  "first_event (task_manager nt_env (sample_task (PyInt 0) PyNone)) =
     Some (Spawn SimpleQueue (PyFunction ''trampoline'') (PyTuple [PyInt 1]) (PyDict [])) \<and>
   dump_function nt_env (PyFunction ''target'') (PyTuple [PyInt 1]) =
     (PyFunction ''trampoline'', PyList [PyFunction ''target'', PyInt 1])"
  by (simp add: task_manager_def task_worker_def worker_finally_def queue_put_def
      queue_get_def outcome_item_def nt_env_def sample_dump_def sample_task_def ProcessTask_def
      SimpleQueue_def manager_finish_def task_set_def Let_def)

text \<open>
  The manager returns exactly when its wait ends, with an item or with the empty signal;
  the run is then the finish of the task with that outcome.
\<close>

lemma manager_total:
  assumes "py_gt_zero (task_timeout task) = Some pos"
    and "fst (queue_get (spawned_channel env task) (seconds (effective_timeout task))) \<noteq> Blocked"
  shows "\<exists>r x q'.
           (r = Got x \<or> r = Empty \<and> x = timeout_error (effective_timeout task)) \<and>
           task_manager env task =
             Some (manager_finish env (task_set (task\<lparr>task_queue := q'\<rparr>) x)
               [Spawn (task_queue task) (spawn_function env task) (task_args task)
                  (task_kwargs task),
                QueueGet (effective_timeout task) r, SetOutcome x])"
proof (cases "queue_get (spawned_channel env task) (seconds (effective_timeout task))")
  case (Pair r q')
  show ?thesis
  proof (cases r)
    case (Got x)
    from manager_got[OF assms(1) Pair[unfolded Got]] show ?thesis by blast
  next
    case Empty
    from manager_empty[OF assms(1) Pair[unfolded Empty]] show ?thesis by blast
  next
    case Blocked
    with Pair assms(2) show ?thesis by simp
  qed
qed

lemma manager_blocked:
  assumes "py_gt_zero (task_timeout task) = Some pos"
    and "fst (queue_get (spawned_channel env task) (seconds (effective_timeout task))) = Blocked"
  shows "task_manager env task = None"
  using assms
  by (cases "queue_get (spawned_channel env task) (seconds (effective_timeout task))")
     (simp add: manager_unfold)

text \<open>
  The outcome of a fresh task with a numeric timeout of \<open>t\<close> seconds and an empty, sound
  channel, when the call that the worker makes returns a value \<open>v\<close> that can be marshaled
  after \<open>d\<close> seconds: \<open>queue.get\<close> is given the configured timeout when \<open>t > 0\<close> and
  \<open>None\<close> otherwise, and the outcome is \<open>v\<close> unless \<open>0 < t < d\<close>.
\<close>

lemma manager_effective_deadline:
  assumes "seconds (task_timeout task) = Some t"
    and "task_results task = None"
    and "task_queue task = SimpleQueue"
    and "call env (spawn_function env task) (task_args task) (task_kwargs task)
           = Some (d, Returns v)"
    and "picklable v"
  shows "\<exists>e task' sp r rest.
           task_manager env task =
             Some (e, task', sp # QueueGet (if 0 < t then task_timeout task else PyNone) r # rest) \<and>
           task_results task' =
             Some (if 0 < t \<and> t < d
                   then Exc (new_exc TimeoutError [PyStr ''Task Timeout'', task_timeout task])
                   else Val v)"
proof -
  let ?sp = "Spawn (task_queue task) (spawn_function env task) (task_args task) (task_kwargs task)"
  have gt: "py_gt_zero (task_timeout task) = Some (0 < t)"
    using assms(1) by (rule seconds_gt_zero)
  have eff: "effective_timeout task = (if 0 < t then task_timeout task else PyNone)"
    using assms(1) by (rule effective_timeout_seconds)
  have "task_worker (call env) (task_queue task) (spawn_function env task)
          (task_args task) (task_kwargs task)
      = Some (Returned, SimpleQueue\<lparr>writes := [(d, Val v)]\<rparr>)"
    using worker_returns[of "call env" "spawn_function env task" "task_args task"
        "task_kwargs task" d v "task_queue task"] assms(3,4,5)
    by (simp add: SimpleQueue_def)
  then have ch: "spawned_channel env task = SimpleQueue\<lparr>writes := [(d, Val v)]\<rparr>"
    by (simp add: spawned_channel_def)
  show ?thesis
  proof (cases "0 < t \<and> t < d")
    case True
    then have "queue_get (spawned_channel env task) (seconds (effective_timeout task))
        = (Empty, SimpleQueue\<lparr>writes := [(d, Val v)]\<rparr>)"
      using assms(1) by (simp add: ch eff queue_get_def)
    from manager_empty[OF gt this]
      manager_finish_shape[of env
        "task_set (task\<lparr>task_queue := SimpleQueue\<lparr>writes := [(d, Val v)]\<rparr>\<rparr>)
           (timeout_error (effective_timeout task))"
        "[?sp, QueueGet (effective_timeout task) Empty,
          SetOutcome (timeout_error (effective_timeout task))]"]
    show ?thesis
      using True assms(2) by (auto simp: eff task_set_fresh timeout_error_def)
  next
    case False
    then have "queue_get (spawned_channel env task) (seconds (effective_timeout task))
        = (Got (Val v), SimpleQueue\<lparr>writes := []\<rparr>)"
      using assms(1) by (auto simp add: ch eff queue_get_def)
    from manager_got[OF gt this]
      manager_finish_shape[of env
        "task_set (task\<lparr>task_queue := SimpleQueue\<lparr>writes := []\<rparr>\<rparr>) (Val v)"
        "[?sp, QueueGet (effective_timeout task) (Got (Val v)), SetOutcome (Val v)]"]
    show ?thesis
      using False assms(2) by (auto simp: eff task_set_fresh)
  qed
qed

text \<open>
  C3. The deadline is resolved as the claim says, and where the worker is spawned with
  the target itself a task with timeout 0 whose target returns 42 ends with 42 (lemma
  \<open>manager_effective_deadline\<close>). On \<open>nt\<close> it does not: the target returns 42, and so
  does the marshaled call, but the worker is spawned with the trampoline and the
  arguments as they were (the slip of C2), so the call raises \<open>TypeError\<close> and the task
  with timeout 0 ends with that \<open>TypeError\<close> as its outcome.
\<close>

theorem manager_nt_target_returns_42_outcome_error:
  "call nt_trampoline_env (PyFunction ''target'') (PyTuple [PyInt 1]) (PyDict [])
     = Some (1, Returns (PyInt 42)) \<and>
   call nt_trampoline_env (PyFunction ''trampoline'') (PyList [PyFunction ''target'', PyInt 1])
       (PyDict [])
     = Some (1, Returns (PyInt 42)) \<and>
   final_results (task_manager nt_trampoline_env (sample_task (PyInt 0) PyNone))
     = Some (Exc ((new_exc TypeError [PyStr ''trampoline() argument''])
                    \<lparr>traceback :=
                       Some (format_exc (new_exc TypeError [PyStr ''trampoline() argument'']))\<rparr>))"
  by (simp add: task_manager_def task_worker_def worker_finally_def queue_put_def
      queue_get_def outcome_item_def nt_trampoline_env_def trampoline_call_def sample_dump_def
      sample_task_def ProcessTask_def SimpleQueue_def manager_finish_def task_set_def
      new_exc_def Let_def)

text \<open>
  C4. A fresh task with a positive numeric timeout of \<open>t\<close> seconds on whose channel
  nothing is written within \<open>t\<close> seconds, whatever the worker does (it runs longer, it
  never returns, or it ends without a write). The manager returns, its \<open>queue.get\<close> ends
  with the empty signal, and the outcome of the task is
  \<open>TimeoutError('Task Timeout', task.timeout)\<close>.
\<close>

theorem manager_timeout:
  assumes "seconds (task_timeout task) = Some t" and "0 < t"
    and "task_results task = None"
    and "\<forall>w \<in> set (writes (spawned_channel env task)). t < fst w"
  shows "\<exists>e task' trace.
           task_manager env task = Some (e, task', trace) \<and>
           QueueGet (task_timeout task) Empty \<in> set trace \<and>
           task_results task' =
             Some (Exc (new_exc TimeoutError [PyStr ''Task Timeout'', task_timeout task]))"
proof -
  have gt: "py_gt_zero (task_timeout task) = Some (0 < t)"
    using assms(1) by (rule seconds_gt_zero)
  have eff: "effective_timeout task = task_timeout task"
    using assms(1,2) by (simp add: effective_timeout_seconds)
  have "queue_get (spawned_channel env task) (seconds (effective_timeout task))
      = (Empty, spawned_channel env task)"
    using assms(1,4) by (simp add: eff queue_get_late)
  from manager_empty[OF gt this]
    manager_finish_shape[of env
      "task_set (task\<lparr>task_queue := spawned_channel env task\<rparr>)
         (timeout_error (effective_timeout task))"
      "[Spawn (task_queue task) (spawn_function env task) (task_args task) (task_kwargs task),
        QueueGet (effective_timeout task) Empty,
        SetOutcome (timeout_error (effective_timeout task))]"]
  show ?thesis
    using assms(3) by (auto simp: eff task_set_fresh timeout_error_def)
qed

lemma sample_slow_channel:
  "spawned_channel (posix_env (Some (5, Returns (PyInt 42))) (Returns PyNone))
     (sample_task (PyFloat (1 / 10)) PyNone) = SimpleQueue\<lparr>writes := [(5, Val (PyInt 42))]\<rparr>"
  by (simp add: spawned_channel_def spawn_function_def task_worker_def worker_finally_def
      queue_put_def outcome_item_def posix_env_def sample_task_def ProcessTask_def
      SimpleQueue_def)

lemma sample_broken_channel:
  "spawned_channel (posix_env (Some (1 / 100, Returns (PyInt 42))) (Returns PyNone))
     (broken_task (PyFloat (1 / 10)) PyNone) = SimpleQueue\<lparr>broken := True\<rparr>"
  by (simp add: spawned_channel_def spawn_function_def task_worker_def worker_finally_def
      queue_put_def outcome_item_def posix_env_def broken_task_def sample_task_def
      ProcessTask_def SimpleQueue_def)

theorem manager_timeout_witness:
  "(\<exists>e task' trace.
      task_manager (posix_env (Some (5, Returns (PyInt 42))) (Returns PyNone))
        (sample_task (PyFloat (1 / 10)) PyNone) = Some (e, task', trace) \<and>
      QueueGet (PyFloat (1 / 10)) Empty \<in> set trace \<and>
      task_results task' =
        Some (Exc (new_exc TimeoutError [PyStr ''Task Timeout'', PyFloat (1 / 10)]))) \<and>
   (\<exists>e task' trace.
      task_manager (posix_env (Some (1 / 100, Returns (PyInt 42))) (Returns PyNone))
        (broken_task (PyFloat (1 / 10)) PyNone) = Some (e, task', trace) \<and>
      QueueGet (PyFloat (1 / 10)) Empty \<in> set trace \<and>
      task_results task' =
        Some (Exc (new_exc TimeoutError [PyStr ''Task Timeout'', PyFloat (1 / 10)])))"
  using manager_timeout
    [where task = "sample_task (PyFloat (1 / 10)) PyNone" and t = "1 / 10"
       and env = "posix_env (Some (5, Returns (PyInt 42))) (Returns PyNone)"]
    manager_timeout
    [where task = "broken_task (PyFloat (1 / 10)) PyNone" and t = "1 / 10"
       and env = "posix_env (Some (1 / 100, Returns (PyInt 42))) (Returns PyNone)"]
  by (simp add: sample_slow_channel sample_broken_channel)
     (simp add: sample_task_def broken_task_def ProcessTask_def SimpleQueue_def)

text \<open>
  C6. Whenever the wait of the manager ends, with an item or with the empty signal, the
  manager returns, and its run goes on in the same way in both cases: the outcome is set,
  then the worker is terminated, then it is joined; neither \<open>terminate\<close> nor \<open>join\<close>
  happens a second time.
\<close>

theorem manager_terminates_and_joins:
  assumes "py_gt_zero (task_timeout task) = Some pos"
    and "fst (queue_get (spawned_channel env task) (seconds (effective_timeout task))) \<noteq> Blocked"
  shows "\<exists>e task' sp b r x post.
           task_manager env task =
             Some (e, task', [sp, QueueGet b r, SetOutcome x, Terminate, Join] @ post) \<and>
           (r = Got x \<or> r = Empty) \<and> Terminate \<notin> set post \<and> Join \<notin> set post"
proof -
  from manager_total[OF assms] obtain r x q' where
    r: "r = Got x \<or> r = Empty \<and> x = timeout_error (effective_timeout task)"
    and run: "task_manager env task =
             Some (manager_finish env (task_set (task\<lparr>task_queue := q'\<rparr>) x)
               [Spawn (task_queue task) (spawn_function env task) (task_args task)
                  (task_kwargs task),
                QueueGet (effective_timeout task) r, SetOutcome x])"
    by blast
  from manager_finish_shape[of env "task_set (task\<lparr>task_queue := q'\<rparr>) x"
      "[Spawn (task_queue task) (spawn_function env task) (task_args task) (task_kwargs task),
        QueueGet (effective_timeout task) r, SetOutcome x]"]
  obtain e post where
    "manager_finish env (task_set (task\<lparr>task_queue := q'\<rparr>) x)
       [Spawn (task_queue task) (spawn_function env task) (task_args task) (task_kwargs task),
        QueueGet (effective_timeout task) r, SetOutcome x]
     = (e, task_set (task\<lparr>task_queue := q'\<rparr>) x,
        [Spawn (task_queue task) (spawn_function env task) (task_args task) (task_kwargs task),
         QueueGet (effective_timeout task) r, SetOutcome x] @ [Terminate, Join] @ post)"
    and "Terminate \<notin> set post" and "Join \<notin> set post"
    by blast
  with run r show ?thesis by auto
qed

theorem manager_terminates_and_joins_witness:
  "(\<exists>e task' sp b r x post.
      task_manager (posix_env (Some (5, Returns (PyInt 42))) (Returns PyNone))
        (sample_task (PyFloat (1 / 10)) PyNone)
        = Some (e, task', [sp, QueueGet b r, SetOutcome x, Terminate, Join] @ post) \<and>
      (r = Got x \<or> r = Empty) \<and> Terminate \<notin> set post \<and> Join \<notin> set post) \<and>
   final_results
     (task_manager (posix_env (Some (5, Returns (PyInt 42))) (Returns PyNone))
        (sample_task (PyFloat (1 / 10)) PyNone))
     = Some (timeout_error (PyFloat (1 / 10)))"
proof -
  have "final_results
     (task_manager (posix_env (Some (5, Returns (PyInt 42))) (Returns PyNone))
        (sample_task (PyFloat (1 / 10)) PyNone))
     = Some (timeout_error (PyFloat (1 / 10)))"
    by (simp add: task_manager_def task_worker_def worker_finally_def queue_put_def
        queue_get_def outcome_item_def posix_env_def sample_task_def ProcessTask_def
        SimpleQueue_def manager_finish_def task_set_def timeout_error_def Let_def)
  moreover have "py_gt_zero (task_timeout (sample_task (PyFloat (1 / 10)) PyNone)) = Some True"
    by (simp add: sample_task_def ProcessTask_def)
  moreover have "fst (queue_get
      (spawned_channel (posix_env (Some (5, Returns (PyInt 42))) (Returns PyNone))
         (sample_task (PyFloat (1 / 10)) PyNone))
      (seconds (effective_timeout (sample_task (PyFloat (1 / 10)) PyNone)))) \<noteq> Blocked"
    unfolding sample_slow_channel
    by (simp add: queue_get_def SimpleQueue_def split: option.splits)
  ultimately show ?thesis
    using manager_terminates_and_joins
      [of "sample_task (PyFloat (1 / 10)) PyNone" True
          "posix_env (Some (5, Returns (PyInt 42))) (Returns PyNone)"]
    by blast
qed

text \<open>
  C7, as the code has it. The handler around the call of the callback is
  \<open>except Exception\<close>: a callback that raises \<open>SystemExit\<close> (it called \<open>sys.exit(1)\<close>)
  is not caught, and the exception leaves the manager.
\<close>

theorem callback_system_exit_propagates:
  "final_end
     (task_manager (posix_env (Some (1, Returns (PyInt 42))) (Raises (sys_exit 1)))
        (sample_task (PyInt 0) (PyFunction ''callback''))) = Some (Propagated (sys_exit 1))"
  by (simp add: task_manager_def task_worker_def worker_finally_def queue_put_def
      queue_get_def outcome_item_def posix_env_def sample_task_def ProcessTask_def
      SimpleQueue_def manager_finish_def task_set_def sys_exit_def new_exc_def Let_def)

text \<open>
  C7, amended. Whenever the wait of the manager of a fresh task with a callback ends, the
  manager returns, and in its run the callback is called exactly once, on the task the
  manager ends with, after the outcome \<open>x\<close> is set and the worker is terminated and
  joined; that task has the outcome \<open>x\<close>, whatever the callback does. When the callback
  returns, the manager ends normally. When it raises an exception that derives from
  \<open>Exception\<close>, the manager logs it with \<open>print_exc\<close> and ends normally. When it raises
  an exception that derives from \<open>BaseException\<close> only, nothing is logged and the
  exception leaves the manager.
\<close>

theorem manager_callback_once:
  assumes "task_callback task \<noteq> PyNone"
    and "py_gt_zero (task_timeout task) = Some pos"
    and "task_results task = None"
    and "fst (queue_get (spawned_channel env task) (seconds (effective_timeout task))) \<noteq> Blocked"
  shows "\<exists>e task' sp b r x post.
           task_manager env task =
             Some (e, task',
                   [sp, QueueGet b r, SetOutcome x, Terminate, Join,
                    Callback (task_callback task) task'] @ post) \<and>
           filter is_callback
             ([sp, QueueGet b r, SetOutcome x, Terminate, Join,
               Callback (task_callback task) task'] @ post)
             = [Callback (task_callback task) task'] \<and>
           sp = Spawn (task_queue task) (spawn_function env task) (task_args task)
                  (task_kwargs task) \<and>
           task_results task' = Some x \<and>
           (case call_callback env (task_callback task) task' of
              Returns _ \<Rightarrow> e = Done \<and> post = []
            | Raises err \<Rightarrow>
                if is_Exception (exc_class err) then e = Done \<and> post = [PrintExc err]
                else e = Propagated err \<and> post = [])"
proof -
  from manager_total[OF assms(2,4)] obtain r x q' where
    run: "task_manager env task =
             Some (manager_finish env (task_set (task\<lparr>task_queue := q'\<rparr>) x)
               [Spawn (task_queue task) (spawn_function env task) (task_args task)
                  (task_kwargs task),
                QueueGet (effective_timeout task) r, SetOutcome x])"
    by blast
  let ?t = "task_set (task\<lparr>task_queue := q'\<rparr>) x"
  have cb: "task_callback ?t = task_callback task" by (rule task_set_callback)
  have res: "task_results ?t = Some x" using assms(3) by (rule task_set_fresh)
  show ?thesis
    unfolding run manager_finish_callback[of ?t env, unfolded cb, OF assms(1)]
    by (cases "call_callback env (task_callback task) ?t") (auto simp: res)
qed

theorem manager_callback_once_witness:
  "(\<exists>task' sp b r x.
      task_manager (posix_env (Some (1, Returns (PyInt 42)))
                      (Raises (new_exc ValueError [PyStr ''boom''])))
        (sample_task (PyInt 0) (PyFunction ''callback''))
        = Some (Done, task',
                [sp, QueueGet b r, SetOutcome x, Terminate, Join,
                 Callback (PyFunction ''callback'') task',
                 PrintExc (new_exc ValueError [PyStr ''boom''])]) \<and>
      task_results task' = Some x) \<and>
   (\<exists>task' sp b r x.
      task_manager (posix_env (Some (1, Returns (PyInt 42)))
                      (Raises (new_exc KeyboardInterrupt [])))
        (sample_task (PyInt 0) (PyFunction ''callback''))
        = Some (Propagated (new_exc KeyboardInterrupt []), task',
                [sp, QueueGet b r, SetOutcome x, Terminate, Join,
                 Callback (PyFunction ''callback'') task']) \<and>
      task_results task' = Some x)"
proof -
  let ?task = "sample_task (PyInt 0) (PyFunction ''callback'')"
  have cb: "task_callback ?task \<noteq> PyNone"
    and num: "py_gt_zero (task_timeout ?task) = Some False"
    and fresh: "task_results ?task = None"
    by (simp_all add: sample_task_def ProcessTask_def)
  have ch: "spawned_channel (posix_env (Some (1, Returns (PyInt 42))) c) ?task
      = SimpleQueue\<lparr>writes := [(1, Val (PyInt 42))]\<rparr>" for c
    by (simp add: spawned_channel_def spawn_function_def task_worker_def worker_finally_def
        queue_put_def outcome_item_def posix_env_def sample_task_def ProcessTask_def
        SimpleQueue_def)
  have nb: "fst (queue_get (spawned_channel (posix_env (Some (1, Returns (PyInt 42))) c) ?task)
      (seconds (effective_timeout ?task))) \<noteq> Blocked" for c
    unfolding ch by (simp add: queue_get_def SimpleQueue_def split: option.splits)
  from manager_callback_once[OF cb num fresh nb, of "Raises (new_exc ValueError [PyStr ''boom''])"]
    manager_callback_once[OF cb num fresh nb, of "Raises (new_exc KeyboardInterrupt [])"]
  show ?thesis
    by (simp add: posix_env_def new_exc_def) (simp add: sample_task_def ProcessTask_def, blast)
qed

section \<open>Cancellation\<close>

lemma cancel_put:
  assumes "\<not> broken (task_queue task)"
  shows "ProcessTask_cancel now task =
           (None, task\<lparr>task_cancelled := True,
                       task_queue := (task_queue task)
                         \<lparr>writes := enqueue (now, cancelled_item) (writes (task_queue task))\<rparr>\<rparr>)"
  using assms
  by (simp add: ProcessTask_cancel_def queue_put_def cancelled_item_def new_exc_def Let_def)

text \<open>
  C8. Cancelling a task whose channel is sound, at time \<open>now\<close>, sets the flag
  \<open>_cancelled\<close>, adds a \<open>TaskCancelled\<close> item to the channel with that time and leaves the
  outcome of the task as it is, whether the task is terminal or not. When the task is not
  terminal, nothing else is on the channel, the cancellation falls within the deadline and
  the worker writes later than \<open>now\<close> or never, the manager sets the cancellation as the
  outcome of the task.
\<close>

theorem cancel_is_terminal:
  assumes "\<not> broken (task_queue task)"
  shows "\<exists>task'.
           ProcessTask_cancel now task = (None, task') \<and>
           task_cancelled task' \<and>
           writes (task_queue task') = enqueue (now, cancelled_item) (writes (task_queue task)) \<and>
           task_results task' = task_results task \<and>
           (task_results task = None \<and> writes (task_queue task) = [] \<and>
            seconds (task_timeout task) = Some t \<and> (0 < t \<longrightarrow> now \<le> t) \<and>
            (case call env (spawn_function env task) (task_args task) (task_kwargs task) of
               None \<Rightarrow> True | Some (d, r) \<Rightarrow> now < d)
            \<longrightarrow> (\<exists>e task'' trace.
                   task_manager env task' = Some (e, task'', trace) \<and>
                   task_results task'' = Some cancelled_item \<and> task_cancelled task''))"
proof -
  let ?q = "(task_queue task)\<lparr>writes := enqueue (now, cancelled_item) (writes (task_queue task))\<rparr>"
  let ?t = "task\<lparr>task_cancelled := True, task_queue := ?q\<rparr>"
  have c: "ProcessTask_cancel now task = (None, ?t)"
    using assms by (rule cancel_put)
  have "\<exists>e task'' trace.
          task_manager env ?t = Some (e, task'', trace) \<and>
          task_results task'' = Some cancelled_item \<and> task_cancelled task''"
    if h: "task_results task = None" "writes (task_queue task) = []"
      "seconds (task_timeout task) = Some t" "0 < t \<longrightarrow> now \<le> t"
      "case call env (spawn_function env task) (task_args task) (task_kwargs task) of
         None \<Rightarrow> True | Some (d, r) \<Rightarrow> now < d"
  proof -
    have sf: "spawn_function env ?t = spawn_function env task"
      by (simp add: spawn_function_def)
    have gt: "py_gt_zero (task_timeout ?t) = Some (0 < t)"
      using h(3) by (simp add: seconds_gt_zero)
    have eff: "effective_timeout ?t = (if 0 < t then task_timeout task else PyNone)"
      using h(3) effective_timeout_seconds[of ?t t] by simp
    have "writes (task_queue ?t) = [(now, cancelled_item)]"
      using h(2) by simp
    moreover have "case call env (spawn_function env ?t) (task_args ?t) (task_kwargs ?t) of
           None \<Rightarrow> True | Some (d, r) \<Rightarrow> now < d"
      using h(5) by (simp add: sf)
    ultimately obtain rest where
      w: "writes (spawned_channel env ?t) = (now, cancelled_item) # rest"
      using spawned_channel_head[of ?t now cancelled_item env] by blast
    have "case seconds (effective_timeout ?t) of None \<Rightarrow> True | Some t' \<Rightarrow> now \<le> t'"
      using h(3,4) by (simp add: eff)
    from queue_get_head[OF w this]
    have g: "queue_get (spawned_channel env ?t) (seconds (effective_timeout ?t))
        = (Got cancelled_item, (spawned_channel env ?t)\<lparr>writes := rest\<rparr>)" .
    from manager_got[OF gt g]
      manager_finish_shape[of env
        "task_set (?t\<lparr>task_queue := (spawned_channel env ?t)\<lparr>writes := rest\<rparr>\<rparr>) cancelled_item"
        "[Spawn (task_queue ?t) (spawn_function env ?t) (task_args ?t) (task_kwargs ?t),
          QueueGet (effective_timeout ?t) (Got cancelled_item), SetOutcome cancelled_item]"]
    show ?thesis
      using h(1) by (auto simp: task_set_def)
  qed
  with c show ?thesis by simp
qed

theorem cancel_is_terminal_witness:
  "\<exists>task'.
     ProcessTask_cancel 1 (sample_task (PyInt 0) PyNone) = (None, task') \<and>
     task_cancelled task' \<and>
     writes (task_queue task') = [(1, cancelled_item)] \<and>
     task_results task' = None \<and>
     (\<exists>e task'' trace.
        task_manager (posix_env (Some (5, Returns (PyInt 42))) (Returns PyNone)) task'
          = Some (e, task'', trace) \<and>
        task_results task'' = Some cancelled_item \<and> task_cancelled task'')"
  using cancel_is_terminal
    [where task = "sample_task (PyInt 0) PyNone" and now = 1 and t = 0
       and env = "posix_env (Some (5, Returns (PyInt 42))) (Returns PyNone)"]
  by (simp add: sample_task_def ProcessTask_def posix_env_def SimpleQueue_def)

section \<open>The factory: ids and errors\<close>

lemma upt_shift: "[c ..< c + Suc n] = c # [Suc c ..< Suc c + n]"
  by (simp add: upt_conv_Cons del: upt_Suc)

lemma wrapper_calls_numbers:
  "map number (fst (wrapper_calls self st invs)) =
     [wrapper_counter self ..< wrapper_counter self + length invs]"
proof (induction invs arbitrary: self st)
  case Nil
  then show ?case by simp
next
  case (Cons inv invs)
  obtain args kwargs where inv: "inv = (args, kwargs)" by (cases inv)
  obtain task self' st' where c: "TaskDecoratorWrapper_call self st args kwargs = (task, self', st')"
    by (cases "TaskDecoratorWrapper_call self st args kwargs")
  obtain tasks self'' st'' where r: "wrapper_calls self' st' invs = (tasks, self'', st'')"
    by (cases "wrapper_calls self' st' invs")
  have n: "number task = wrapper_counter self" and s: "wrapper_counter self' = Suc (wrapper_counter self)"
    using c by (auto simp: TaskDecoratorWrapper_call_def Let_def ProcessTask_def)
  have "map number tasks = [Suc (wrapper_counter self) ..< Suc (wrapper_counter self) + length invs]"
    using Cons.IH[of self' st'] r s by simp
  then show ?case
    using upt_shift[of "wrapper_counter self" "length invs"]
    by (simp add: inv c r n del: upt_Suc)
qed

lemma wrapper_calls_global:
  "task_counter (snd (snd (wrapper_calls self st invs))) = task_counter st"
proof (induction invs arbitrary: self st)
  case Nil
  then show ?case by simp
next
  case (Cons inv invs)
  obtain args kwargs where inv: "inv = (args, kwargs)" by (cases inv)
  obtain task self' st' where c: "TaskDecoratorWrapper_call self st args kwargs = (task, self', st')"
    by (cases "TaskDecoratorWrapper_call self st args kwargs")
  obtain tasks self'' st'' where r: "wrapper_calls self' st' invs = (tasks, self'', st'')"
    by (cases "wrapper_calls self' st' invs")
  have "task_counter st' = task_counter st"
    using c by (auto simp: TaskDecoratorWrapper_call_def Let_def)
  then show ?case
    using Cons.IH[of self' st'] r by (simp add: inv c)
qed

lemma map_of_filter_key:
  "map_of (filter (\<lambda>kv. fst kv \<noteq> k) xs) k' = (if k' = k then None else map_of xs k')"
  by (induction xs) auto

lemma dict_pop_get: "fst (dict_pop k d kw) = dict_get k d kw"
  by (simp add: dict_pop_def dict_get_def split: option.splits)

lemma dict_pop_rest:
  "k' \<noteq> k \<Longrightarrow> dict_get k' d' (snd (dict_pop k d kw)) = dict_get k' d' kw"
  by (simp add: dict_pop_def dict_get_def map_of_filter_key split: option.splits)


lemma task_factory_kwargs:
  assumes "kwargs \<noteq> []"
  shows "task_factory st args kwargs =
     (if dict_get ''target'' PyNone kwargs \<noteq> PyNone then
        (let task = ProcessTask (task_counter st) (dict_get ''target'' PyNone kwargs)
                      (dict_get ''args'' (PyList []) kwargs) (dict_get ''kwargs'' (PyDict []) kwargs)
                      (dict_get ''callback'' PyNone kwargs) (dict_get ''timeout'' (PyInt 0) kwargs)
                      SimpleQueue
         in (Inr (Started task),
             st\<lparr>task_counter := task_counter st + 1, managers := managers st @ [task]\<rparr>))
      else (Inr (Decorator (dict_get ''timeout'' (PyInt 0) kwargs)
                           (dict_get ''callback'' PyNone kwargs)), st))"
proof -
  obtain timeout k1 where p1: "dict_pop ''timeout'' (PyInt 0) kwargs = (timeout, k1)" by fastforce
  obtain callback k2 where p2: "dict_pop ''callback'' PyNone k1 = (callback, k2)" by fastforce
  obtain target k3 where p3: "dict_pop ''target'' PyNone k2 = (target, k3)" by fastforce
  obtain args' k4 where p4: "dict_pop ''args'' (PyList []) k3 = (args', k4)" by fastforce
  obtain kwargs' k5 where p5: "dict_pop ''kwargs'' (PyDict []) k4 = (kwargs', k5)" by fastforce
  have k1: "k1 = snd (dict_pop ''timeout'' (PyInt 0) kwargs)" using p1 by simp
  have k2: "k2 = snd (dict_pop ''callback'' PyNone k1)" using p2 by simp
  have k3: "k3 = snd (dict_pop ''target'' PyNone k2)" using p3 by simp
  have k4: "k4 = snd (dict_pop ''args'' (PyList []) k3)" using p4 by simp
  have t: "timeout = dict_get ''timeout'' (PyInt 0) kwargs"
    using p1 dict_pop_get[of "''timeout''" "PyInt 0" kwargs] by simp
  have c: "callback = dict_get ''callback'' PyNone kwargs"
    using p2 dict_pop_get[of "''callback''" PyNone k1] by (simp add: k1 dict_pop_rest)
  have g: "target = dict_get ''target'' PyNone kwargs"
    using p3 dict_pop_get[of "''target''" PyNone k2] by (simp add: k2 k1 dict_pop_rest)
  have a: "args' = dict_get ''args'' (PyList []) kwargs"
    using p4 dict_pop_get[of "''args''" "PyList []" k3] by (simp add: k3 k2 k1 dict_pop_rest)
  have k: "kwargs' = dict_get ''kwargs'' (PyDict []) kwargs"
    using p5 dict_pop_get[of "''kwargs''" "PyDict []" k4] by (simp add: k4 k3 k2 k1 dict_pop_rest)
  show ?thesis
    using assms by (simp add: task_factory_def p1 p2 p3 p4 p5 Let_def t[symmetric] c[symmetric] g[symmetric] a[symmetric] k[symmetric])
qed

lemma task_factory_counter:
  "task_counter (snd (task_factory st args kwargs)) =
     (case fst (task_factory st args kwargs) of
        Inr (Started t) \<Rightarrow> task_counter st + 1 | _ \<Rightarrow> task_counter st)"
proof (cases "kwargs = []")
  case True
  then show ?thesis by (simp add: task_factory_def)
next
  case False
  then show ?thesis by (simp add: task_factory_kwargs Let_def)
qed

lemma task_factory_number:
  "fst (task_factory st args kwargs) = Inr (Started t) \<Longrightarrow> number t = task_counter st"
proof (cases "kwargs = []")
  case True
  assume "fst (task_factory st args kwargs) = Inr (Started t)"
  with True show ?thesis by (simp add: task_factory_def split: if_splits)
next
  case False
  assume "fst (task_factory st args kwargs) = Inr (Started t)"
  with False show ?thesis by (auto simp add: task_factory_kwargs Let_def ProcessTask_def split: if_splits)
qed

lemma factory_calls_numbers:
  "started_numbers (fst (factory_calls st cs)) =
     [task_counter st ..< task_counter st + length (started_numbers (fst (factory_calls st cs)))]"
proof (induction cs arbitrary: st)
  case Nil
  then show ?case by simp
next
  case (Cons c cs)
  obtain args kwargs where c: "c = (args, kwargs)" by (cases c)
  obtain r st' where f: "task_factory st args kwargs = (r, st')" by fastforce
  obtain rs st'' where fs: "factory_calls st' cs = (rs, st'')" by fastforce
  have ih: "started_numbers rs = [task_counter st' ..< task_counter st' + length (started_numbers rs)]"
    using Cons.IH[of st'] fs by simp
  show ?case
  proof (cases "\<exists>t. r = Inr (Started t)")
    case True
    then obtain t where r: "r = Inr (Started t)" by blast
    have n: "number t = task_counter st" using task_factory_number[of st args kwargs t] f r by simp
    have s: "task_counter st' = task_counter st + 1" using task_factory_counter[of st args kwargs] f r by simp
    show ?thesis using ih upt_shift[of "task_counter st" "length (started_numbers rs)"]
      by (simp add: c f fs r n s del: upt_Suc)
  next
    case False
    have s: "task_counter st' = task_counter st" using task_factory_counter[of st args kwargs] f False
      by (auto split: sum.splits factory_result.splits)
    have "started_numbers (r # rs) = started_numbers rs"
    proof (cases r)
      case (Inl x)
      then show ?thesis by simp
    next
      case (Inr x)
      with False show ?thesis by (cases x) auto
    qed
    then show ?thesis using ih by (simp add: c f fs s)
  qed
qed


lemma dict_get_Cons:
  "k \<noteq> key \<Longrightarrow> dict_get key d ((k, v) # kwargs) = dict_get key d kwargs"
  by (simp add: dict_get_def)

text \<open>
  C9. A wrapper called again and again, with whatever arguments, makes tasks whose ids are
  0, 1, 2, ... in the order of the calls, and leaves the global counter alone. The
  tasks that a sequence of calls of \<open>task\<close> starts have consecutive ids that begin at the
  value of the global counter; a call with a \<open>target\<close> starts a task with the value of the
  global counter as id and adds one to the counter.
\<close>

theorem task_ids:
  "map number (fst (wrapper_calls (TaskDecoratorWrapper function timeout callback) st invs))
     = [0 ..< length invs] \<and>
   task_counter (snd (snd (wrapper_calls (TaskDecoratorWrapper function timeout callback) st invs)))
     = task_counter st \<and>
   started_numbers (fst (factory_calls st cs))
     = [task_counter st ..< task_counter st + length (started_numbers (fst (factory_calls st cs)))] \<and>
   (dict_get ''target'' PyNone kwargs \<noteq> PyNone \<longrightarrow>
      (\<exists>t. task_factory st args kwargs =
             (Inr (Started t),
              st\<lparr>task_counter := task_counter st + 1, managers := managers st @ [t]\<rparr>) \<and>
           number t = task_counter st))"
proof -
  have w: "wrapper_counter (TaskDecoratorWrapper function timeout callback) = 0"
    by (simp add: TaskDecoratorWrapper_def)
  have "kwargs \<noteq> []" if "dict_get ''target'' PyNone kwargs \<noteq> PyNone"
    using that by (auto simp: dict_get_def)
  then have "\<exists>t. task_factory st args kwargs =
             (Inr (Started t),
              st\<lparr>task_counter := task_counter st + 1, managers := managers st @ [t]\<rparr>) \<and>
           number t = task_counter st"
    if "dict_get ''target'' PyNone kwargs \<noteq> PyNone"
    using that by (simp add: task_factory_kwargs Let_def ProcessTask_def)
  then show ?thesis
    using wrapper_calls_numbers[of "TaskDecoratorWrapper function timeout callback" st invs]
      wrapper_calls_global[of "TaskDecoratorWrapper function timeout callback" st invs]
      factory_calls_numbers[of st cs]
    by (simp add: w)
qed

theorem task_ids_witness:
  "map number (fst (wrapper_calls (TaskDecoratorWrapper (PyFunction ''f'') (PyInt 0) PyNone)
                      initial_state [([], []), ([PyInt 1], []), ([], [])]))
     = [0 ..< length [([], []), ([PyInt 1], []), ([]::pyval list, []::(string \<times> pyval) list)]] \<and>
   (\<exists>t. task_factory initial_state [] [(''target'', PyFunction ''f'')] =
          (Inr (Started t),
           initial_state\<lparr>task_counter := task_counter initial_state + 1,
                          managers := managers initial_state @ [t]\<rparr>) \<and>
        number t = task_counter initial_state)"
  using task_ids
    [of "PyFunction ''f''" "PyInt 0" PyNone initial_state "[([], []), ([PyInt 1], []), ([], [])]"
        "[]" "[(''target'', PyFunction ''f'')]" "[]"]
  by (simp add: dict_get_def)

text \<open>
  C10. \<open>task\<close> raises exactly when it is called with no arguments at all, or with
  positional arguments only and a first one that is neither a function nor a method, and
  what it raises is a \<open>ValueError\<close>. When there is a keyword argument, the positional
  arguments do not matter, and neither does a keyword argument whose key is none of
  \<open>timeout\<close>, \<open>callback\<close>, \<open>target\<close>, \<open>args\<close>, \<open>kwargs\<close>.
\<close>

theorem task_factory_raises:
  "((\<exists>e. fst (task_factory st args kwargs) = Inl e) \<longleftrightarrow>
      (args = [] \<and> kwargs = []) \<or>
      (args \<noteq> [] \<and> kwargs = [] \<and> \<not> is_function_or_method (hd args))) \<and>
   (\<forall>e. fst (task_factory st args kwargs) = Inl e \<longrightarrow> exc_class e = ValueError) \<and>
   (kwargs \<noteq> [] \<longrightarrow> task_factory st args kwargs = task_factory st [] kwargs) \<and>
   (kwargs \<noteq> [] \<and> k \<notin> {''timeout'', ''callback'', ''target'', ''args'', ''kwargs''} \<longrightarrow>
      task_factory st args ((k, v) # kwargs) = task_factory st args kwargs)"
proof (cases "kwargs = []")
  case True
  then show ?thesis
    by (cases args) (simp_all add: task_factory_def new_exc_def)
next
  case False
  have "task_factory st args ((k, v) # kwargs) = task_factory st args kwargs"
    if "k \<notin> {''timeout'', ''callback'', ''target'', ''args'', ''kwargs''}"
    using that False
    by (simp only: task_factory_kwargs[OF False]
          task_factory_kwargs[of "(k, v) # kwargs", simplified])
       (simp add: dict_get_Cons)
  then show ?thesis
    using False by (simp add: task_factory_kwargs Let_def)
qed

theorem task_factory_raises_witness:
  "(\<exists>e. fst (task_factory initial_state [PyInt 3] []) = Inl e \<and> exc_class e = ValueError) \<and>
   (\<nexists>e. fst (task_factory initial_state [PyInt 3] [(''timeout'', PyInt 5)]) = Inl e) \<and>
   task_factory initial_state [PyInt 3] [(''timeout'', PyInt 5)]
     = task_factory initial_state [] [(''timeout'', PyInt 5)] \<and>
   task_factory initial_state [PyInt 3] [(''colour'', PyStr ''red''), (''timeout'', PyInt 5)]
     = task_factory initial_state [PyInt 3] [(''timeout'', PyInt 5)]"
  using task_factory_raises[of initial_state "[PyInt 3]" "[]" "''colour''" "PyStr ''red''"]
    task_factory_raises
      [of initial_state "[PyInt 3]" "[(''timeout'', PyInt 5)]" "''colour''" "PyStr ''red''"]
  by auto

end
